theory Spec2Isabelle
  imports Main "HOL-Library.Sublist"
begin

section \<open>Python values used by the chatbot\<close>

text \<open>
  The module \<open>src/app/itmo_chat_bot.py\<close> works on Python \<open>str\<close> values, most of them
  Russian text. A \<open>str\<close> is a sequence of Unicode code points, and \<open>len\<close>, slicing and the
  operator \<open>in\<close> all count code points, so a string is modelled as the list of its code points.
\<close>

type_synonym pystr = "nat list"

definition ascii :: "string \<Rightarrow> pystr" where
  "ascii s = map of_char s"

text \<open>
  The characters for which \<open>str.isspace\<close> holds: the ones \<open>str.strip()\<close> removes and
  \<open>str.split()\<close> separates on when called without an argument.
\<close>

definition isspace :: "nat \<Rightarrow> bool" where
  "isspace c \<longleftrightarrow>
     (9 \<le> c \<and> c \<le> 13) \<or> (28 \<le> c \<and> c \<le> 32) \<or> c = 133 \<or> c = 160 \<or> c = 5760 \<or>
     (8192 \<le> c \<and> c \<le> 8202) \<or> c = 8232 \<or> c = 8233 \<or> c = 8239 \<or> c = 8287 \<or> c = 12288"

definition strip :: "pystr \<Rightarrow> pystr" where
  "strip s = rev (dropWhile isspace (rev (dropWhile isspace s)))"

text \<open>
  \<open>s.split()\<close>: the maximal runs of non-space characters, in order. The first argument
  of \<open>split_from\<close> is the word being read.
\<close>

fun split_from :: "pystr \<Rightarrow> pystr \<Rightarrow> pystr list" where
  "split_from w [] = (if w = [] then [] else [w])"
| "split_from w (c # cs) =
     (if isspace c then (if w = [] then split_from [] cs else w # split_from [] cs)
      else split_from (w @ [c]) cs)"

definition py_split :: "pystr \<Rightarrow> pystr list" where
  "py_split s = split_from [] s"

text \<open>\<open>sub in s\<close> on strings: \<open>sub\<close> occurs in \<open>s\<close> as a contiguous block.\<close>

fun str_in :: "pystr \<Rightarrow> pystr \<Rightarrow> bool" where
  "str_in sub [] = (sub = [])"
| "str_in sub (c # cs) = (prefix sub (c # cs) \<or> str_in sub cs)"

text \<open>\<open>sep.join(parts)\<close>.\<close>

fun join :: "pystr \<Rightarrow> pystr list \<Rightarrow> pystr" where
  "join sep [] = []"
| "join sep [x] = x"
| "join sep (x # y # ys) = x @ sep @ join sep (y # ys)"

text \<open>
  Exceptions are values. All of them are instances of Python's \<open>Exception\<close>: the two the
  module's own indexing can raise, and \<open>Raised n\<close> for whatever a library call raises
  (the embedder, the FAISS index, the Anthropic client, the local model), told apart by a tag.
\<close>

datatype error = KeyError pystr | IndexError | Raised nat

text \<open>
  \<open>xs[i]\<close> on a Python list: positions \<open>0\<close> to \<open>len(xs) - 1\<close> are read directly,
  \<open>-len(xs)\<close> to \<open>-1\<close> are read from the end, and every other index raises.
\<close>

definition getitem :: "'a list \<Rightarrow> int \<Rightarrow> error + 'a" where
  "getitem xs i =
     (if 0 \<le> i \<and> i < int (length xs) then Inr (xs ! nat i)
      else if i < 0 \<and> - int (length xs) \<le> i then Inr (xs ! nat (int (length xs) + i))
      else Inl IndexError)"

section \<open>String literals of the module\<close>

text \<open>
  Every literal below is the list of code points of the literal at the given line of
  \<open>itmo_chat_bot.py\<close>; the comment gives its content in English.
\<close>

(* line 161: the template up to the context block: the assistant role and the two programmes *)
definition prompt_head :: pystr where
  "prompt_head =
    [1058, 1099, 32, 45, 32, 1087, 1086, 1084, 1086, 1097, 1085, 1080, 1082, 32, 1076, 1083,
     1103, 32, 1072, 1073, 1080, 1090, 1091, 1088, 1080, 1077, 1085, 1090, 1086, 1074, 32, 1048,
     1058, 1052, 1054, 44, 32, 1087, 1086, 1084, 1086, 1075, 1072, 1102, 1097, 1080, 1081, 32,
     1074, 1099, 1073, 1088, 1072, 1090, 1100, 32, 1084, 1077, 1078, 1076, 1091, 32, 1076, 1074,
     1091, 1084, 1103, 32, 1084, 1072, 1075, 1080, 1089, 1090, 1077, 1088, 1089, 1082, 1080,
     1084, 1080, 32, 1087, 1088, 1086, 1075, 1088, 1072, 1084, 1084, 1072, 1084, 1080, 58, 10,
     49, 46, 32, 34, 1048, 1089, 1082, 1091, 1089, 1089, 1090, 1074, 1077, 1085, 1085, 1099,
     1081, 32, 1080, 1085, 1090, 1077, 1083, 1083, 1077, 1082, 1090, 34, 32, 45, 32, 1076, 1083,
     1103, 32, 1090, 1077, 1093, 1085, 1080, 1095, 1077, 1089, 1082, 1080, 1093, 32, 1089, 1087,
     1077, 1094, 1080, 1072, 1083, 1080, 1089, 1090, 1086, 1074, 32, 1074, 32, 77, 76, 10, 50,
     46, 32, 34, 1059, 1087, 1088, 1072, 1074, 1083, 1077, 1085, 1080, 1077, 32, 1048, 1048, 45,
     1087, 1088, 1086, 1076, 1091, 1082, 1090, 1072, 1084, 1080, 47, 65, 73, 32, 80, 114, 111,
     100, 117, 99, 116, 34, 32, 45, 32, 1076, 1083, 1103, 32, 1087, 1088, 1086, 1076, 1072, 1082,
     1090, 45, 1084, 1077, 1085, 1077, 1076, 1078, 1077, 1088, 1086, 1074, 32, 1074, 32, 1048,
     1048, 10, 10, 1048, 1089, 1087, 1086, 1083, 1100, 1079, 1091, 1081, 32, 1089, 1083, 1077,
     1076, 1091, 1102, 1097, 1091, 1102, 32, 1080, 1085, 1092, 1086, 1088, 1084, 1072, 1094,
     1080, 1102, 32, 1076, 1083, 1103, 32, 1086, 1090, 1074, 1077, 1090, 1072, 58, 10]"

(* line 168: two newlines and the label "Applicant question: " *)
definition prompt_mid :: pystr where
  "prompt_mid =
    [10, 10, 1042, 1086, 1087, 1088, 1086, 1089, 32, 1072, 1073, 1080, 1090, 1091, 1088, 1080,
     1077, 1085, 1090, 1072, 58, 32]"

(* line 170: two newlines and the request for a useful, concrete answer in Russian *)
definition prompt_tail :: pystr where
  "prompt_tail =
    [10, 10, 1044, 1072, 1081, 32, 1087, 1086, 1083, 1077, 1079, 1085, 1099, 1081, 32, 1080, 32,
     1082, 1086, 1085, 1082, 1088, 1077, 1090, 1085, 1099, 1081, 32, 1086, 1090, 1074, 1077,
     1090, 32, 1085, 1072, 32, 1088, 1091, 1089, 1089, 1082, 1086, 1084, 32, 1103, 1079, 1099,
     1082, 1077, 46, 32, 1045, 1089, 1083, 1080, 32, 1085, 1091, 1078, 1085, 1086, 32, 45, 32,
     1087, 1086, 1088, 1077, 1082, 1086, 1084, 1077, 1085, 1076, 1091, 1081, 32, 1087, 1088,
     1086, 1075, 1088, 1072, 1084, 1084, 1091, 32, 1080, 1089, 1093, 1086, 1076, 1103, 32, 1080,
     1079, 32, 1080, 1085, 1090, 1077, 1088, 1077, 1089, 1086, 1074, 32, 1072, 1073, 1080, 1090,
     1091, 1088, 1080, 1077, 1085, 1090, 1072, 46]"

(* line 208: "privet" (hi) *)
definition greeting_privet :: pystr where
  "greeting_privet =
    [1087, 1088, 1080, 1074, 1077, 1090]"

(* line 208: "zdravstvuy" (hello) *)
definition greeting_zdravstvuy :: pystr where
  "greeting_zdravstvuy =
    [1079, 1076, 1088, 1072, 1074, 1089, 1090, 1074, 1091, 1081]"

(* line 208: "dobryy den" (good day) *)
definition greeting_dobry_den :: pystr where
  "greeting_dobry_den =
    [1076, 1086, 1073, 1088, 1099, 1081, 32, 1076, 1077, 1085, 1100]"

(* line 208: "dobryy vecher" (good evening) *)
definition greeting_dobry_vecher :: pystr where
  "greeting_dobry_vecher =
    [1076, 1086, 1073, 1088, 1099, 1081, 32, 1074, 1077, 1095, 1077, 1088]"

(* line 208: "zdravstvuyte" (hello, formal) *)
definition greeting_zdravstvuyte :: pystr where
  "greeting_zdravstvuyte =
    [1079, 1076, 1088, 1072, 1074, 1089, 1090, 1074, 1091, 1081, 1090, 1077]"

(* line 208: "start" *)
definition greeting_start :: pystr where
  "greeting_start =
    [115, 116, 97, 114, 116]"

(* line 208: "/start" *)
definition greeting_slash_start :: pystr where
  "greeting_slash_start =
    [47, 115, 116, 97, 114, 116]"

(* line 210: the greeting reply: introduces the assistant and lists the topics it covers *)
definition onboarding_message :: pystr where
  "onboarding_message =
    [1047, 1076, 1088, 1072, 1074, 1089, 1090, 1074, 1091, 1081, 1090, 1077, 33, 32, 1071, 32,
     1087, 1086, 1084, 1086, 1097, 1085, 1080, 1082, 32, 1087, 1086, 32, 1074, 1099, 1073, 1086,
     1088, 1091, 32, 1084, 1072, 1075, 1080, 1089, 1090, 1077, 1088, 1089, 1082, 1086, 1081, 32,
     1087, 1088, 1086, 1075, 1088, 1072, 1084, 1084, 1099, 32, 1074, 32, 1048, 1058, 1052, 1054,
     46, 32, 10, 32, 32, 32, 32, 32, 32, 32, 32, 32, 32, 32, 32, 10, 1052, 1086, 1075, 1091, 32,
     1088, 1072, 1089, 1089, 1082, 1072, 1079, 1072, 1090, 1100, 32, 1086, 32, 1076, 1074, 1091,
     1093, 32, 1087, 1088, 1086, 1075, 1088, 1072, 1084, 1084, 1072, 1093, 58, 10, 8226, 32, 34,
     1048, 1089, 1082, 1091, 1089, 1089, 1090, 1074, 1077, 1085, 1085, 1099, 1081, 32, 1080,
     1085, 1090, 1077, 1083, 1083, 1077, 1082, 1090, 34, 32, 45, 32, 1076, 1083, 1103, 32, 1090,
     1077, 1093, 44, 32, 1082, 1090, 1086, 32, 1093, 1086, 1095, 1077, 1090, 32, 1089, 1090,
     1072, 1090, 1100, 32, 77, 76, 45, 1080, 1085, 1078, 1077, 1085, 1077, 1088, 1086, 1084, 10,
     8226, 32, 34, 1059, 1087, 1088, 1072, 1074, 1083, 1077, 1085, 1080, 1077, 32, 1048, 1048,
     45, 1087, 1088, 1086, 1076, 1091, 1082, 1090, 1072, 1084, 1080, 34, 32, 45, 32, 1076, 1083,
     1103, 32, 1073, 1091, 1076, 1091, 1097, 1080, 1093, 32, 65, 73, 32, 1087, 1088, 1086, 1076,
     1072, 1082, 1090, 45, 1084, 1077, 1085, 1077, 1076, 1078, 1077, 1088, 1086, 1074, 10, 10,
     1054, 32, 1095, 1077, 1084, 32, 1074, 1099, 32, 1093, 1086, 1090, 1077, 1083, 1080, 32,
     1073, 1099, 32, 1091, 1079, 1085, 1072, 1090, 1100, 63, 32, 1053, 1072, 1087, 1088, 1080,
     1084, 1077, 1088, 58, 10, 45, 32, 1056, 1072, 1079, 1083, 1080, 1095, 1080, 1103, 32, 1084,
     1077, 1078, 1076, 1091, 32, 1087, 1088, 1086, 1075, 1088, 1072, 1084, 1084, 1072, 1084,
     1080, 10, 45, 32, 1057, 1090, 1086, 1080, 1084, 1086, 1089, 1090, 1100, 32, 1080, 32, 1073,
     1102, 1076, 1078, 1077, 1090, 1085, 1099, 1077, 32, 1084, 1077, 1089, 1090, 1072, 10, 45,
     32, 1057, 1087, 1086, 1089, 1086, 1073, 1099, 32, 1087, 1086, 1089, 1090, 1091, 1087, 1083,
     1077, 1085, 1080, 1103, 10, 45, 32, 1050, 1072, 1088, 1100, 1077, 1088, 1085, 1099, 1077,
     32, 1087, 1077, 1088, 1089, 1087, 1077, 1082, 1090, 1080, 1074, 1099, 10, 45, 32, 1058,
     1088, 1077, 1073, 1086, 1074, 1072, 1085, 1080, 1103, 32, 1082, 32, 1087, 1086, 1089, 1090,
     1091, 1087, 1072, 1102, 1097, 1080, 1084, 10, 45, 32, 1059, 1095, 1077, 1073, 1085, 1099,
     1077, 32, 1076, 1080, 1089, 1094, 1080, 1087, 1083, 1080, 1085, 1099, 10, 10, 1058, 1072,
     1082, 1078, 1077, 32, 1084, 1086, 1075, 1091, 32, 1076, 1072, 1090, 1100, 32, 1087, 1077,
     1088, 1089, 1086, 1085, 1072, 1083, 1100, 1085, 1091, 1102, 32, 1088, 1077, 1082, 1086,
     1084, 1077, 1085, 1076, 1072, 1094, 1080, 1102, 32, 1087, 1086, 32, 1074, 1099, 1073, 1086,
     1088, 1091, 32, 1087, 1088, 1086, 1075, 1088, 1072, 1084, 1084, 1099, 33]"

(* line 230: the apology that nothing was found, with the topics one may ask about *)
definition not_found_message :: pystr where
  "not_found_message =
    [1048, 1079, 1074, 1080, 1085, 1080, 1090, 1077, 44, 32, 1103, 32, 1085, 1077, 32, 1085,
     1072, 1096, 1077, 1083, 32, 1080, 1085, 1092, 1086, 1088, 1084, 1072, 1094, 1080, 1080, 32,
     1087, 1086, 32, 1074, 1072, 1096, 1077, 1084, 1091, 32, 1079, 1072, 1087, 1088, 1086, 1089,
     1091, 46, 32, 1055, 1086, 1087, 1088, 1086, 1073, 1091, 1081, 1090, 1077, 32, 1089, 1087,
     1088, 1086, 1089, 1080, 1090, 1100, 32, 1086, 32, 1087, 1088, 1086, 1075, 1088, 1072, 1084,
     1084, 1072, 1093, 44, 32, 1087, 1086, 1089, 1090, 1091, 1087, 1083, 1077, 1085, 1080, 1080,
     44, 32, 1082, 1072, 1088, 1100, 1077, 1088, 1085, 1099, 1093, 32, 1087, 1077, 1088, 1089,
     1087, 1077, 1082, 1090, 1080, 1074, 1072, 1093, 44, 32, 1076, 1080, 1089, 1094, 1080, 1087,
     1083, 1080, 1085, 1072, 1093, 32, 1080, 1083, 1080, 32, 1089, 1090, 1086, 1080, 1084, 1086,
     1089, 1090, 1080, 32, 1086, 1073, 1091, 1095, 1077, 1085, 1080, 1103, 46]"

(* line 271: the text recommending the programme "Artificial Intelligence" *)
definition recommendation_ai :: pystr where
  "recommendation_ai =
    [1053, 1072, 32, 1086, 1089, 1085, 1086, 1074, 1077, 32, 1074, 1072, 1096, 1077, 1075, 1086,
     32, 1087, 1088, 1086, 1092, 1080, 1083, 1103, 32, 1103, 32, 1088, 1077, 1082, 1086, 1084,
     1077, 1085, 1076, 1091, 1102, 32, 1087, 1088, 1086, 1075, 1088, 1072, 1084, 1084, 1091, 32,
     42, 42, 34, 1048, 1089, 1082, 1091, 1089, 1089, 1090, 1074, 1077, 1085, 1085, 1099, 1081,
     32, 1080, 1085, 1090, 1077, 1083, 1083, 1077, 1082, 1090, 34, 42, 42, 46, 10, 10, 1055,
     1086, 1095, 1077, 1084, 1091, 32, 1101, 1090, 1072, 32, 1087, 1088, 1086, 1075, 1088, 1072,
     1084, 1084, 1072, 32, 1074, 1072, 1084, 32, 1087, 1086, 1076, 1093, 1086, 1076, 1080, 1090,
     58, 10, 8226, 32, 1059, 32, 1074, 1072, 1089, 32, 1077, 1089, 1090, 1100, 32, 1090, 1077,
     1093, 1085, 1080, 1095, 1077, 1089, 1082, 1080, 1077, 32, 1085, 1072, 1074, 1099, 1082,
     1080, 32, 1080, 32, 1086, 1087, 1099, 1090, 32, 1087, 1088, 1086, 1075, 1088, 1072, 1084,
     1084, 1080, 1088, 1086, 1074, 1072, 1085, 1080, 1103, 32, 45, 32, 1101, 1090, 1086, 32,
     1086, 1090, 1083, 1080, 1095, 1085, 1072, 1103, 32, 1073, 1072, 1079, 1072, 32, 1076, 1083,
     1103, 32, 1091, 1075, 1083, 1091, 1073, 1083, 1077, 1085, 1080, 1103, 32, 1074, 32, 77, 76,
     10, 8226, 32, 1055, 1088, 1086, 1075, 1088, 1072, 1084, 1084, 1072, 32, 1087, 1086, 1079,
     1074, 1086, 1083, 1080, 1090, 32, 1089, 1090, 1072, 1090, 1100, 32, 77, 76, 32, 69, 110,
     103, 105, 110, 101, 101, 114, 32, 1080, 1083, 1080, 32, 68, 97, 116, 97, 32, 69, 110, 103,
     105, 110, 101, 101, 114, 32, 1091, 1088, 1086, 1074, 1085, 1103, 32, 77, 105, 100, 100, 108,
     101, 32, 1079, 1072, 32, 50, 32, 1075, 1086, 1076, 1072, 10, 8226, 32, 1042, 1099, 32, 1073,
     1091, 1076, 1077, 1090, 1077, 32, 1088, 1072, 1073, 1086, 1090, 1072, 1090, 1100, 32, 1085,
     1072, 1076, 32, 1088, 1077, 1072, 1083, 1100, 1085, 1099, 1084, 1080, 32, 1087, 1088, 1086,
     1077, 1082, 1090, 1072, 1084, 1080, 32, 1082, 1086, 1084, 1087, 1072, 1085, 1080, 1081, 32,
     40, 88, 53, 44, 32, 79, 122, 111, 110, 44, 32, 1052, 1058, 1057, 44, 32, 83, 98, 101, 114,
     32, 65, 73, 41, 10, 8226, 32, 1042, 1086, 1079, 1084, 1086, 1078, 1085, 1086, 1089, 1090,
     1100, 32, 1074, 1099, 1073, 1088, 1072, 1090, 1100, 32, 1089, 1087, 1077, 1094, 1080, 1072,
     1083, 1080, 1079, 1072, 1094, 1080, 1102, 58, 32, 77, 76, 32, 69, 110, 103, 105, 110, 101,
     101, 114, 105, 110, 103, 44, 32, 68, 97, 116, 97, 32, 69, 110, 103, 105, 110, 101, 101, 114,
     105, 110, 103, 44, 32, 65, 73, 32, 68, 101, 118, 101, 108, 111, 112, 109, 101, 110, 116, 10,
     8226, 32, 1047, 1072, 1088, 1087, 1083, 1072, 1090, 1085, 1099, 1077, 32, 1086, 1078, 1080,
     1076, 1072, 1085, 1080, 1103, 58, 32, 49, 55, 48, 45, 51, 48, 48, 32, 1090, 1099, 1089, 46,
     32, 1088, 1091, 1073, 46, 32, 1076, 1083, 1103, 32, 77, 105, 100, 100, 108, 101, 45, 1089,
     1087, 1077, 1094, 1080, 1072, 1083, 1080, 1089, 1090, 1072, 10, 10, 1055, 1088, 1086, 1075,
     1088, 1072, 1084, 1084, 1072, 32, 1074, 1082, 1083, 1102, 1095, 1072, 1077, 1090, 32, 1075,
     1083, 1091, 1073, 1086, 1082, 1086, 1077, 32, 1080, 1079, 1091, 1095, 1077, 1085, 1080,
     1077, 32, 1072, 1083, 1075, 1086, 1088, 1080, 1090, 1084, 1086, 1074, 32, 77, 76, 44, 32,
     1088, 1072, 1073, 1086, 1090, 1091, 32, 1089, 32, 1073, 1086, 1083, 1100, 1096, 1080, 1084,
     1080, 32, 1076, 1072, 1085, 1085, 1099, 1084, 1080, 32, 1080, 32, 1088, 1072, 1079, 1074,
     1077, 1088, 1090, 1099, 1074, 1072, 1085, 1080, 1077, 32, 1084, 1086, 1076, 1077, 1083,
     1077, 1081, 32, 1074, 32, 1087, 1088, 1086, 1076, 1072, 1082, 1096, 1085, 46, 10, 10, 1056,
     1077, 1082, 1086, 1084, 1077, 1085, 1076, 1091, 1077, 1084, 1099, 1077, 32, 1076, 1080,
     1089, 1094, 1080, 1087, 1083, 1080, 1085, 1099, 32, 1087, 1086, 32, 1074, 1099, 1073, 1086,
     1088, 1091, 58, 10, 45, 32, 77, 76, 79, 112, 115, 32, 1080, 32, 1080, 1085, 1092, 1088,
     1072, 1089, 1090, 1088, 1091, 1082, 1090, 1091, 1088, 1072, 32, 77, 76, 10, 45, 32, 1050,
     1086, 1084, 1087, 1100, 1102, 1090, 1077, 1088, 1085, 1086, 1077, 32, 1079, 1088, 1077,
     1085, 1080, 1077, 32, 1080, 1083, 1080, 32, 78, 76, 80, 32, 40, 1074, 32, 1079, 1072, 1074,
     1080, 1089, 1080, 1084, 1086, 1089, 1090, 1080, 32, 1086, 1090, 32, 1080, 1085, 1090, 1077,
     1088, 1077, 1089, 1086, 1074, 41, 10, 45, 32, 82, 101, 105, 110, 102, 111, 114, 99, 101,
     109, 101, 110, 116, 32, 76, 101, 97, 114, 110, 105, 110, 103, 10, 45, 32, 69, 100, 103, 101,
     32, 65, 73, 32, 1076, 1083, 1103, 32, 1088, 1072, 1073, 1086, 1090, 1099, 32, 1089, 32,
     1074, 1089, 1090, 1088, 1072, 1080, 1074, 1072, 1077, 1084, 1099, 1084, 1080, 32, 1089,
     1080, 1089, 1090, 1077, 1084, 1072, 1084, 1080]"

(* line 289: the text recommending the programme "AI Product management" *)
definition recommendation_ai_product :: pystr where
  "recommendation_ai_product =
    [1053, 1072, 32, 1086, 1089, 1085, 1086, 1074, 1077, 32, 1074, 1072, 1096, 1077, 1075, 1086,
     32, 1087, 1088, 1086, 1092, 1080, 1083, 1103, 32, 1103, 32, 1088, 1077, 1082, 1086, 1084,
     1077, 1085, 1076, 1091, 1102, 32, 1087, 1088, 1086, 1075, 1088, 1072, 1084, 1084, 1091, 32,
     42, 42, 34, 1059, 1087, 1088, 1072, 1074, 1083, 1077, 1085, 1080, 1077, 32, 1048, 1048, 45,
     1087, 1088, 1086, 1076, 1091, 1082, 1090, 1072, 1084, 1080, 47, 65, 73, 32, 80, 114, 111,
     100, 117, 99, 116, 34, 42, 42, 46, 10, 10, 1055, 1086, 1095, 1077, 1084, 1091, 32, 1101,
     1090, 1072, 32, 1087, 1088, 1086, 1075, 1088, 1072, 1084, 1084, 1072, 32, 1074, 1072, 1084,
     32, 1087, 1086, 1076, 1093, 1086, 1076, 1080, 1090, 58, 10, 8226, 32, 1042, 1072, 1089, 32,
     1080, 1085, 1090, 1077, 1088, 1077, 1089, 1091, 1077, 1090, 32, 1087, 1088, 1086, 1076,
     1091, 1082, 1090, 1086, 1074, 1099, 1081, 32, 1084, 1077, 1085, 1077, 1076, 1078, 1084,
     1077, 1085, 1090, 32, 1080, 32, 1091, 32, 1074, 1072, 1089, 32, 1077, 1089, 1090, 1100, 32,
     1086, 1087, 1099, 1090, 32, 1088, 1072, 1073, 1086, 1090, 1099, 32, 1089, 32, 1087, 1088,
     1086, 1076, 1091, 1082, 1090, 1072, 1084, 1080, 10, 8226, 32, 1055, 1088, 1086, 1075, 1088,
     1072, 1084, 1084, 1072, 32, 1089, 1086, 1095, 1077, 1090, 1072, 1077, 1090, 32, 1090, 1077,
     1093, 1085, 1080, 1095, 1077, 1089, 1082, 1080, 1077, 32, 1079, 1085, 1072, 1085, 1080,
     1103, 32, 1048, 1048, 32, 1089, 32, 1085, 1072, 1074, 1099, 1082, 1072, 1084, 1080, 32,
     1091, 1087, 1088, 1072, 1074, 1083, 1077, 1085, 1080, 1103, 32, 1087, 1088, 1086, 1076,
     1091, 1082, 1090, 1072, 1084, 1080, 10, 8226, 32, 1055, 1072, 1088, 1090, 1085, 1077, 1088,
     1089, 1090, 1074, 1086, 32, 1089, 32, 1040, 1083, 1100, 1092, 1072, 45, 1041, 1072, 1085,
     1082, 1086, 1084, 32, 1076, 1072, 1077, 1090, 32, 1076, 1086, 1089, 1090, 1091, 1087, 32,
     1082, 32, 1088, 1077, 1072, 1083, 1100, 1085, 1099, 1084, 32, 1082, 1077, 1081, 1089, 1072,
     1084, 32, 1092, 1080, 1085, 1090, 1077, 1093, 1072, 10, 8226, 32, 1042, 1086, 1079, 1084,
     1086, 1078, 1085, 1099, 1077, 32, 1088, 1086, 1083, 1080, 58, 32, 65, 73, 32, 80, 114, 111,
     100, 117, 99, 116, 32, 77, 97, 110, 97, 103, 101, 114, 44, 32, 65, 73, 32, 80, 114, 111,
     106, 101, 99, 116, 32, 77, 97, 110, 97, 103, 101, 114, 44, 32, 80, 114, 111, 100, 117, 99,
     116, 32, 68, 97, 116, 97, 32, 65, 110, 97, 108, 121, 115, 116, 10, 8226, 32, 1047, 1072,
     1088, 1087, 1083, 1072, 1090, 1085, 1099, 1077, 32, 1086, 1078, 1080, 1076, 1072, 1085,
     1080, 1103, 58, 32, 49, 53, 48, 45, 52, 48, 48, 43, 32, 1090, 1099, 1089, 46, 32, 1088,
     1091, 1073, 46, 32, 1095, 1077, 1088, 1077, 1079, 32, 49, 45, 51, 32, 1075, 1086, 1076,
     1072, 10, 10, 1042, 1099, 32, 1085, 1072, 1091, 1095, 1080, 1090, 1077, 1089, 1100, 32,
     1089, 1086, 1079, 1076, 1072, 1074, 1072, 1090, 1100, 32, 1048, 1048, 45, 1088, 1077, 1096,
     1077, 1085, 1080, 1103, 32, 1080, 32, 1074, 1099, 1074, 1086, 1076, 1080, 1090, 1100, 32,
     1080, 1093, 32, 1085, 1072, 32, 1088, 1099, 1085, 1086, 1082, 44, 32, 1087, 1086, 1085,
     1080, 1084, 1072, 1103, 32, 1082, 1072, 1082, 32, 1090, 1077, 1093, 1085, 1080, 1095, 1077,
     1089, 1082, 1091, 1102, 44, 32, 1090, 1072, 1082, 32, 1080, 32, 1073, 1080, 1079, 1085,
     1077, 1089, 45, 1089, 1090, 1086, 1088, 1086, 1085, 1091, 46, 10, 10, 1056, 1077, 1082,
     1086, 1084, 1077, 1085, 1076, 1091, 1077, 1084, 1099, 1077, 32, 1076, 1080, 1089, 1094,
     1080, 1087, 1083, 1080, 1085, 1099, 32, 1087, 1086, 32, 1074, 1099, 1073, 1086, 1088, 1091,
     58, 10, 45, 32, 71, 114, 111, 119, 116, 104, 32, 72, 97, 99, 107, 105, 110, 103, 32, 1076,
     1083, 1103, 32, 65, 73, 45, 1087, 1088, 1086, 1076, 1091, 1082, 1090, 1086, 1074, 10, 45,
     32, 1052, 1086, 1085, 1077, 1090, 1080, 1079, 1072, 1094, 1080, 1103, 32, 65, 73, 45, 1088,
     1077, 1096, 1077, 1085, 1080, 1081, 10, 45, 32, 65, 103, 105, 108, 101, 32, 1080, 32, 83,
     99, 114, 117, 109, 32, 1076, 1083, 1103, 32, 65, 73, 45, 1087, 1088, 1086, 1077, 1082, 1090,
     1086, 1074, 10, 45, 32, 68, 105, 103, 105, 116, 97, 108, 32, 77, 97, 114, 107, 101, 116,
     105, 110, 103, 32, 1089, 32, 1080, 1089, 1087, 1086, 1083, 1100, 1079, 1086, 1074, 1072,
     1085, 1080, 1077, 1084, 32, 77, 76]"

(* line 307: the text saying both programmes may fit, with a checklist for each *)
definition recommendation_both :: pystr where
  "recommendation_both =
    [1054, 1073, 1077, 32, 1087, 1088, 1086, 1075, 1088, 1072, 1084, 1084, 1099, 32, 1084, 1086,
     1075, 1091, 1090, 32, 1074, 1072, 1084, 32, 1087, 1086, 1076, 1086, 1081, 1090, 1080, 33,
     32, 1044, 1072, 1074, 1072, 1081, 1090, 1077, 32, 1086, 1087, 1088, 1077, 1076, 1077, 1083,
     1080, 1084, 1089, 1103, 32, 1090, 1086, 1095, 1085, 1077, 1077, 58, 10, 10, 42, 42, 34,
     1048, 1089, 1082, 1091, 1089, 1089, 1090, 1074, 1077, 1085, 1085, 1099, 1081, 32, 1080,
     1085, 1090, 1077, 1083, 1083, 1077, 1082, 1090, 34, 42, 42, 32, 1074, 1099, 1073, 1080,
     1088, 1072, 1081, 1090, 1077, 44, 32, 1077, 1089, 1083, 1080, 58, 10, 8226, 32, 1061, 1086,
     1090, 1080, 1090, 1077, 32, 1075, 1083, 1091, 1073, 1086, 1082, 1086, 32, 1087, 1086, 1075,
     1088, 1091, 1079, 1080, 1090, 1100, 1089, 1103, 32, 1074, 32, 1090, 1077, 1093, 1085, 1080,
     1095, 1077, 1089, 1082, 1080, 1077, 32, 1072, 1089, 1087, 1077, 1082, 1090, 1099, 32, 77,
     76, 10, 8226, 32, 1043, 1086, 1090, 1086, 1074, 1099, 32, 1084, 1085, 1086, 1075, 1086, 32,
     1087, 1088, 1086, 1075, 1088, 1072, 1084, 1084, 1080, 1088, 1086, 1074, 1072, 1090, 1100,
     32, 1080, 32, 1088, 1072, 1073, 1086, 1090, 1072, 1090, 1100, 32, 1089, 32, 1072, 1083,
     1075, 1086, 1088, 1080, 1090, 1084, 1072, 1084, 1080, 10, 8226, 32, 1048, 1085, 1090, 1077,
     1088, 1077, 1089, 1091, 1077, 1090, 1077, 1089, 1100, 32, 1080, 1089, 1089, 1083, 1077,
     1076, 1086, 1074, 1072, 1085, 1080, 1103, 1084, 1080, 32, 1080, 32, 1085, 1072, 1091, 1095,
     1085, 1099, 1084, 1080, 32, 1087, 1091, 1073, 1083, 1080, 1082, 1072, 1094, 1080, 1103,
     1084, 1080, 10, 8226, 32, 1061, 1086, 1090, 1080, 1090, 1077, 32, 1089, 1090, 1072, 1090,
     1100, 32, 77, 76, 32, 69, 110, 103, 105, 110, 101, 101, 114, 32, 1080, 1083, 1080, 32, 68,
     97, 116, 97, 32, 69, 110, 103, 105, 110, 101, 101, 114, 10, 10, 42, 42, 34, 1059, 1087,
     1088, 1072, 1074, 1083, 1077, 1085, 1080, 1077, 32, 1048, 1048, 45, 1087, 1088, 1086, 1076,
     1091, 1082, 1090, 1072, 1084, 1080, 34, 42, 42, 32, 1074, 1099, 1073, 1080, 1088, 1072,
     1081, 1090, 1077, 44, 32, 1077, 1089, 1083, 1080, 58, 10, 8226, 32, 1061, 1086, 1090, 1080,
     1090, 1077, 32, 1091, 1087, 1088, 1072, 1074, 1083, 1103, 1090, 1100, 32, 1088, 1072, 1079,
     1088, 1072, 1073, 1086, 1090, 1082, 1086, 1081, 32, 1048, 1048, 45, 1087, 1088, 1086, 1076,
     1091, 1082, 1090, 1086, 1074, 10, 8226, 32, 1048, 1085, 1090, 1077, 1088, 1077, 1089, 1091,
     1077, 1090, 32, 1088, 1072, 1073, 1086, 1090, 1072, 32, 1085, 1072, 32, 1089, 1090, 1099,
     1082, 1077, 32, 1090, 1077, 1093, 1085, 1086, 1083, 1086, 1075, 1080, 1081, 32, 1080, 32,
     1073, 1080, 1079, 1085, 1077, 1089, 1072, 10, 8226, 32, 1042, 1072, 1078, 1085, 1086, 32,
     1087, 1086, 1085, 1080, 1084, 1072, 1090, 1100, 32, 1080, 32, 1090, 1077, 1093, 1085, 1080,
     1095, 1077, 1089, 1082, 1091, 1102, 44, 32, 1080, 32, 1087, 1088, 1086, 1076, 1091, 1082,
     1090, 1086, 1074, 1091, 1102, 32, 1089, 1090, 1086, 1088, 1086, 1085, 1099, 10, 8226, 32,
     1061, 1086, 1090, 1080, 1090, 1077, 32, 1089, 1090, 1072, 1090, 1100, 32, 65, 73, 32, 80,
     114, 111, 100, 117, 99, 116, 32, 77, 97, 110, 97, 103, 101, 114, 10, 10, 1056, 1077, 1082,
     1086, 1084, 1077, 1085, 1076, 1091, 1102, 32, 1087, 1088, 1086, 1081, 1090, 1080, 32, 1087,
     1088, 1086, 1073, 1085, 1099, 1077, 32, 1082, 1091, 1088, 1089, 1099, 32, 1086, 1073, 1077,
     1080, 1093, 32, 1087, 1088, 1086, 1075, 1088, 1072, 1084, 1084, 32, 1080, 1083, 1080, 32,
     1087, 1086, 1075, 1086, 1074, 1086, 1088, 1080, 1090, 1100, 32, 1089, 32, 1074, 1099, 1087,
     1091, 1089, 1082, 1085, 1080, 1082, 1072, 1084, 1080, 32, 1076, 1083, 1103, 32, 1086, 1082,
     1086, 1085, 1095, 1072, 1090, 1077, 1083, 1100, 1085, 1086, 1075, 1086, 32, 1074, 1099,
     1073, 1086, 1088, 1072, 33]"

(* line 337: header of the block for the programme "Artificial Intelligence" *)
definition disc_ai_header :: pystr where
  "disc_ai_header =
    [42, 42, 1056, 1077, 1082, 1086, 1084, 1077, 1085, 1076, 1091, 1077, 1084, 1099, 1077, 32,
     1076, 1080, 1089, 1094, 1080, 1087, 1083, 1080, 1085, 1099, 32, 1087, 1086, 32, 1074, 1099,
     1073, 1086, 1088, 1091, 32, 1076, 1083, 1103, 32, 1087, 1088, 1086, 1075, 1088, 1072, 1084,
     1084, 1099, 32, 39, 1048, 1089, 1082, 1091, 1089, 1089, 1090, 1074, 1077, 1085, 1085, 1099,
     1081, 32, 1080, 1085, 1090, 1077, 1083, 1083, 1077, 1082, 1090, 39, 58, 42, 42, 10, 10]"

(* line 340: bullet: MLOps *)
definition disc_mlops :: pystr where
  "disc_mlops =
    [8226, 32, 42, 42, 77, 76, 79, 112, 115, 42, 42, 32, 45, 32, 1076, 1083, 1103, 32, 1088,
     1072, 1079, 1074, 1077, 1088, 1090, 1099, 1074, 1072, 1085, 1080, 1103, 32, 1084, 1086,
     1076, 1077, 1083, 1077, 1081, 32, 1074, 32, 1087, 1088, 1086, 1076, 1072, 1082, 1096, 1085,
     10]"

(* line 341: bullet: distributed computing *)
definition disc_distributed :: pystr where
  "disc_distributed =
    [8226, 32, 42, 42, 1056, 1072, 1089, 1087, 1088, 1077, 1076, 1077, 1083, 1077, 1085, 1085,
     1099, 1077, 32, 1074, 1099, 1095, 1080, 1089, 1083, 1077, 1085, 1080, 1103, 42, 42, 32, 45,
     32, 1076, 1083, 1103, 32, 1088, 1072, 1073, 1086, 1090, 1099, 32, 1089, 32, 1073, 1086,
     1083, 1100, 1096, 1080, 1084, 1080, 32, 1076, 1072, 1085, 1085, 1099, 1084, 1080, 10]"

(* line 344: bullet: Reinforcement Learning *)
definition disc_reinforcement :: pystr where
  "disc_reinforcement =
    [8226, 32, 42, 42, 82, 101, 105, 110, 102, 111, 114, 99, 101, 109, 101, 110, 116, 32, 76,
     101, 97, 114, 110, 105, 110, 103, 42, 42, 32, 45, 32, 1087, 1077, 1088, 1077, 1076, 1086,
     1074, 1086, 1077, 32, 1085, 1072, 1087, 1088, 1072, 1074, 1083, 1077, 1085, 1080, 1077, 32,
     1074, 32, 77, 76, 10]"

(* line 345: bullet: Explainable AI *)
definition disc_explainable :: pystr where
  "disc_explainable =
    [8226, 32, 42, 42, 69, 120, 112, 108, 97, 105, 110, 97, 98, 108, 101, 32, 65, 73, 42, 42, 32,
     45, 32, 1076, 1083, 1103, 32, 1089, 1086, 1079, 1076, 1072, 1085, 1080, 1103, 32, 1080,
     1085, 1090, 1077, 1088, 1087, 1088, 1077, 1090, 1080, 1088, 1091, 1077, 1084, 1099, 1093,
     32, 1084, 1086, 1076, 1077, 1083, 1077, 1081, 10]"

(* line 348: bullet: mathematical foundations of AI *)
definition disc_math :: pystr where
  "disc_math =
    [8226, 32, 42, 42, 1052, 1072, 1090, 1077, 1084, 1072, 1090, 1080, 1095, 1077, 1089, 1082,
     1080, 1077, 32, 1086, 1089, 1085, 1086, 1074, 1099, 32, 1048, 1048, 42, 42, 32, 45, 32,
     1091, 1089, 1080, 1083, 1077, 1085, 1085, 1099, 1081, 32, 1082, 1091, 1088, 1089, 32, 1084,
     1072, 1090, 1077, 1084, 1072, 1090, 1080, 1082, 1080, 10]"

(* line 349: bullet: Python for Data Science *)
definition disc_python :: pystr where
  "disc_python =
    [8226, 32, 42, 42, 80, 121, 116, 104, 111, 110, 32, 1076, 1083, 1103, 32, 68, 97, 116, 97,
     32, 83, 99, 105, 101, 110, 99, 101, 42, 42, 32, 45, 32, 1091, 1075, 1083, 1091, 1073, 1083,
     1077, 1085, 1085, 1086, 1077, 32, 1087, 1088, 1086, 1075, 1088, 1072, 1084, 1084, 1080,
     1088, 1086, 1074, 1072, 1085, 1080, 1077, 10]"

(* line 351: sub-header: specialisations by interest *)
definition disc_ai_interests :: pystr where
  "disc_ai_interests =
    [10, 42, 42, 1057, 1087, 1077, 1094, 1080, 1072, 1083, 1080, 1079, 1072, 1094, 1080, 1080,
     32, 1087, 1086, 32, 1080, 1085, 1090, 1077, 1088, 1077, 1089, 1072, 1084, 58, 42, 42, 10]"

(* line 352: bullet: Computer Vision *)
definition disc_vision :: pystr where
  "disc_vision =
    [8226, 32, 67, 111, 109, 112, 117, 116, 101, 114, 32, 86, 105, 115, 105, 111, 110, 32, 45,
     32, 1077, 1089, 1083, 1080, 32, 1080, 1085, 1090, 1077, 1088, 1077, 1089, 1091, 1077, 1090,
     32, 1088, 1072, 1073, 1086, 1090, 1072, 32, 1089, 32, 1080, 1079, 1086, 1073, 1088, 1072,
     1078, 1077, 1085, 1080, 1103, 1084, 1080, 10]"

(* line 353: bullet: NLP *)
definition disc_nlp :: pystr where
  "disc_nlp =
    [8226, 32, 78, 76, 80, 32, 45, 32, 1077, 1089, 1083, 1080, 32, 1080, 1085, 1090, 1077, 1088,
     1077, 1089, 1091, 1077, 1090, 32, 1088, 1072, 1073, 1086, 1090, 1072, 32, 1089, 32, 1090,
     1077, 1082, 1089, 1090, 1086, 1084, 10]"

(* line 354: bullet: bioinformatics *)
definition disc_bioinformatics :: pystr where
  "disc_bioinformatics =
    [8226, 32, 1041, 1080, 1086, 1080, 1085, 1092, 1086, 1088, 1084, 1072, 1090, 1080, 1082,
     1072, 32, 45, 32, 1077, 1089, 1083, 1080, 32, 1077, 1089, 1090, 1100, 32, 1080, 1085, 1090,
     1077, 1088, 1077, 1089, 32, 1082, 32, 1084, 1077, 1076, 1080, 1094, 1080, 1085, 1077, 10]"

(* line 355: bullet: robotics *)
definition disc_robotics :: pystr where
  "disc_robotics =
    [8226, 32, 1056, 1086, 1073, 1086, 1090, 1086, 1090, 1077, 1093, 1085, 1080, 1082, 1072, 32,
     45, 32, 1076, 1083, 1103, 32, 1088, 1072, 1073, 1086, 1090, 1099, 32, 1089, 32, 1072, 1074,
     1090, 1086, 1085, 1086, 1084, 1085, 1099, 1084, 1080, 32, 1089, 1080, 1089, 1090, 1077,
     1084, 1072, 1084, 1080, 10]"

(* line 358: header of the block for the programme "AI Product management" *)
definition disc_product_header :: pystr where
  "disc_product_header =
    [42, 42, 1056, 1077, 1082, 1086, 1084, 1077, 1085, 1076, 1091, 1077, 1084, 1099, 1077, 32,
     1076, 1080, 1089, 1094, 1080, 1087, 1083, 1080, 1085, 1099, 32, 1087, 1086, 32, 1074, 1099,
     1073, 1086, 1088, 1091, 32, 1076, 1083, 1103, 32, 1087, 1088, 1086, 1075, 1088, 1072, 1084,
     1084, 1099, 32, 39, 1059, 1087, 1088, 1072, 1074, 1083, 1077, 1085, 1080, 1077, 32, 1048,
     1048, 45, 1087, 1088, 1086, 1076, 1091, 1082, 1090, 1072, 1084, 1080, 39, 58, 42, 42, 10, 10]"

(* line 361: bullet: Growth Hacking *)
definition disc_growth :: pystr where
  "disc_growth =
    [8226, 32, 42, 42, 71, 114, 111, 119, 116, 104, 32, 72, 97, 99, 107, 105, 110, 103, 42, 42,
     32, 45, 32, 1076, 1083, 1103, 32, 1084, 1072, 1089, 1096, 1090, 1072, 1073, 1080, 1088,
     1086, 1074, 1072, 1085, 1080, 1103, 32, 65, 73, 45, 1087, 1088, 1086, 1076, 1091, 1082,
     1090, 1086, 1074, 10]"

(* line 362: bullet: monetisation of AI *)
definition disc_monetization :: pystr where
  "disc_monetization =
    [8226, 32, 42, 42, 1052, 1086, 1085, 1077, 1090, 1080, 1079, 1072, 1094, 1080, 1103, 32, 65,
     73, 42, 42, 32, 45, 32, 1089, 1090, 1088, 1072, 1090, 1077, 1075, 1080, 1080, 32, 1079,
     1072, 1088, 1072, 1073, 1086, 1090, 1082, 1072, 32, 1085, 1072, 32, 77, 76, 10]"

(* line 365: bullet: basics of machine learning *)
definition disc_ml_basics :: pystr where
  "disc_ml_basics =
    [8226, 32, 42, 42, 1054, 1089, 1085, 1086, 1074, 1099, 32, 1084, 1072, 1096, 1080, 1085,
     1085, 1086, 1075, 1086, 32, 1086, 1073, 1091, 1095, 1077, 1085, 1080, 1103, 42, 42, 32, 45,
     32, 1073, 1072, 1079, 1086, 1074, 1099, 1081, 32, 1090, 1077, 1093, 1085, 1080, 1095, 1077,
     1089, 1082, 1080, 1081, 32, 1082, 1091, 1088, 1089, 10]"

(* line 366: bullet: data analysis for product managers *)
definition disc_data_pm :: pystr where
  "disc_data_pm =
    [8226, 32, 42, 42, 1040, 1085, 1072, 1083, 1080, 1079, 32, 1076, 1072, 1085, 1085, 1099,
     1093, 32, 1076, 1083, 1103, 32, 80, 77, 42, 42, 32, 45, 32, 1088, 1072, 1073, 1086, 1090,
     1072, 32, 1089, 32, 1084, 1077, 1090, 1088, 1080, 1082, 1072, 1084, 1080, 10]"

(* line 369: bullet: Agile for AI *)
definition disc_agile :: pystr where
  "disc_agile =
    [8226, 32, 42, 42, 65, 103, 105, 108, 101, 32, 1076, 1083, 1103, 32, 65, 73, 42, 42, 32, 45,
     32, 1091, 1087, 1088, 1072, 1074, 1083, 1077, 1085, 1080, 1077, 32, 65, 73, 45, 1087, 1088,
     1086, 1077, 1082, 1090, 1072, 1084, 1080, 10]"

(* line 370: bullet: venture investment *)
definition disc_venture :: pystr where
  "disc_venture =
    [8226, 32, 42, 42, 1042, 1077, 1085, 1095, 1091, 1088, 1085, 1099, 1077, 32, 1080, 1085,
     1074, 1077, 1089, 1090, 1080, 1094, 1080, 1080, 42, 42, 32, 45, 32, 1076, 1083, 1103, 32,
     1079, 1072, 1087, 1091, 1089, 1082, 1072, 32, 1089, 1090, 1072, 1088, 1090, 1072, 1087,
     1086, 1074, 10]"

(* line 372: sub-header: additional skills *)
definition disc_product_skills :: pystr where
  "disc_product_skills =
    [10, 42, 42, 1044, 1086, 1087, 1086, 1083, 1085, 1080, 1090, 1077, 1083, 1100, 1085, 1099,
     1077, 32, 1085, 1072, 1074, 1099, 1082, 1080, 58, 42, 42, 10]"

(* line 373: bullet: UX for AI *)
definition disc_ux :: pystr where
  "disc_ux =
    [8226, 32, 85, 88, 32, 1076, 1083, 1103, 32, 65, 73, 32, 45, 32, 1087, 1088, 1086, 1077,
     1082, 1090, 1080, 1088, 1086, 1074, 1072, 1085, 1080, 1077, 32, 65, 73, 45, 1080, 1085,
     1090, 1077, 1088, 1092, 1077, 1081, 1089, 1086, 1074, 10]"

(* line 374: bullet: Digital Marketing *)
definition disc_marketing :: pystr where
  "disc_marketing =
    [8226, 32, 68, 105, 103, 105, 116, 97, 108, 32, 77, 97, 114, 107, 101, 116, 105, 110, 103,
     32, 45, 32, 1087, 1088, 1086, 1076, 1074, 1080, 1078, 1077, 1085, 1080, 1077, 32, 65, 73,
     45, 1088, 1077, 1096, 1077, 1085, 1080, 1081, 10]"

(* line 375: bullet: Legal Tech *)
definition disc_legal :: pystr where
  "disc_legal =
    [8226, 32, 76, 101, 103, 97, 108, 32, 84, 101, 99, 104, 32, 45, 32, 1087, 1088, 1072, 1074,
     1086, 1074, 1099, 1077, 32, 1072, 1089, 1087, 1077, 1082, 1090, 1099, 32, 65, 73, 10]"

(* line 376: bullet: behavioural economics *)
definition disc_behavioral :: pystr where
  "disc_behavioral =
    [8226, 32, 1055, 1086, 1074, 1077, 1076, 1077, 1085, 1095, 1077, 1089, 1082, 1072, 1103, 32,
     1101, 1082, 1086, 1085, 1086, 1084, 1080, 1082, 1072, 32, 45, 32, 1087, 1086, 1085, 1080,
     1084, 1072, 1085, 1080, 1077, 32, 1087, 1086, 1083, 1100, 1079, 1086, 1074, 1072, 1090,
     1077, 1083, 1077, 1081, 10]"

definition greetings :: "pystr list" where
  "greetings =
     [greeting_privet, greeting_zdravstvuy, greeting_dobry_den, greeting_dobry_vecher,
      greeting_zdravstvuyte, greeting_start, greeting_slash_start]"

section \<open>The recommendation scorer\<close>

text \<open>
  \<open>user_background\<close> is a dictionary from factor names to answers; the Telegram front end
  stores a \<open>bool\<close> under each name it has asked about. \<open>get_flag\<close> is
  \<open>user_background.get(key, False)\<close>.
\<close>

type_synonym background = "pystr \<rightharpoonup> bool"

definition get_flag :: "background \<Rightarrow> pystr \<Rightarrow> bool" where
  "get_flag user_background key = (case user_background key of None \<Rightarrow> False | Some v \<Rightarrow> v)"

text \<open>
  The first half of \<open>recommend_program\<close> (lines 247 to 267): the two counters after the five
  tests, in source order.
\<close>

definition scores :: "background \<Rightarrow> int \<times> int" where
  "scores user_background =
     (let (ai_score, ai_product_score) = (0, 0);
          (ai_score, ai_product_score) =
            (if get_flag user_background (ascii ''technical_skills'')
             then (ai_score + 2, ai_product_score + 1) else (ai_score, ai_product_score));
          (ai_score, ai_product_score) =
            (if get_flag user_background (ascii ''management_interest'')
             then (ai_score, ai_product_score + 2) else (ai_score, ai_product_score));
          (ai_score, ai_product_score) =
            (if get_flag user_background (ascii ''programming_experience'')
             then (ai_score + 2, ai_product_score + 1) else (ai_score, ai_product_score));
          (ai_score, ai_product_score) =
            (if get_flag user_background (ascii ''ml_knowledge'')
             then (ai_score + 1, ai_product_score + 1) else (ai_score, ai_product_score));
          (ai_score, ai_product_score) =
            (if get_flag user_background (ascii ''product_experience'')
             then (ai_score, ai_product_score + 2) else (ai_score, ai_product_score))
      in (ai_score, ai_product_score))"

definition recommend_program :: "background \<Rightarrow> pystr" where
  "recommend_program user_background =
     (let (ai_score, ai_product_score) = scores user_background
      in if ai_score > ai_product_score then recommendation_ai
         else if ai_product_score > ai_score then recommendation_ai_product
         else recommendation_both)"

definition get_disciplines_recommendation :: "pystr \<Rightarrow> background \<Rightarrow> pystr" where
  "get_disciplines_recommendation program background =
     (if program = ascii ''ai'' then
        disc_ai_header
        @ (if get_flag background (ascii ''programming_experience'')
           then disc_mlops @ disc_distributed else [])
        @ (if get_flag background (ascii ''ml_knowledge'')
           then disc_reinforcement @ disc_explainable else [])
        @ (if \<not> get_flag background (ascii ''technical_skills'')
           then disc_math @ disc_python else [])
        @ disc_ai_interests @ disc_vision @ disc_nlp @ disc_bioinformatics @ disc_robotics
      else
        disc_product_header
        @ (if get_flag background (ascii ''product_experience'')
           then disc_growth @ disc_monetization else [])
        @ (if \<not> get_flag background (ascii ''ml_knowledge'')
           then disc_ml_basics @ disc_data_pm else [])
        @ (if get_flag background (ascii ''management_interest'')
           then disc_agile @ disc_venture else [])
        @ disc_product_skills @ disc_ux @ disc_marketing @ disc_legal @ disc_behavioral)"

text \<open>The profile the front end has built once all five questions are answered.\<close>

definition profile :: "bool \<Rightarrow> bool \<Rightarrow> bool \<Rightarrow> bool \<Rightarrow> bool \<Rightarrow> background" where
  "profile technical management programming ml product =
     [ascii ''technical_skills'' \<mapsto> technical,
      ascii ''management_interest'' \<mapsto> management,
      ascii ''programming_experience'' \<mapsto> programming,
      ascii ''ml_knowledge'' \<mapsto> ml,
      ascii ''product_experience'' \<mapsto> product]"

section \<open>The chatbot object and its collaborators\<close>

text \<open>
  A knowledge-base entry is a dictionary of strings, read from \<open>knowledge_base.json\<close>.
\<close>

type_synonym entry = "pystr \<rightharpoonup> pystr"

text \<open>
  The calls the object makes to its collaborators are recorded in \<open>calls\<close>, a history the
  source does not keep; it is there to state which collaborator a method has reached.
\<close>

datatype event = Retrieval pystr int | PrimaryCall pystr | FallbackCall pystr

text \<open>
  The fields of \<open>ITMOAIChatbot\<close> the methods below read or write. \<open>claude_client\<close> is
  \<open>None\<close> or the client made from the API key; \<open>fallback_tokenizer\<close> and
  \<open>fallback_model\<close> say whether the field holds a loaded object rather than \<open>None\<close>.
\<close>

record chatbot =
  claude_client :: "pystr option"
  max_tokens_per_month :: int
  used_tokens :: int
  fallback_tokenizer :: bool
  fallback_model :: bool
  knowledge_base :: "entry list"
  calls :: "event list"

text \<open>
  What the libraries answer is not decided by the module, so it is a parameter. Each
  answer may depend on the calls made so far (the models sample, the network fails).
  \<^item> \<open>str_lower\<close>: \<open>str.lower\<close>;
  \<^item> \<open>index_search query k\<close>: the row \<open>indices[0]\<close> that \<open>self.index.search\<close> returns for
    the embedded, normalised query, or the exception raised on the way;
  \<^item> \<open>messages_create prompt\<close>: \<open>response.content[0].text\<close> of the answer of
    \<open>self.claude_client.messages.create\<close>, or the exception raised by the call or by
    reading the text;
  \<^item> \<open>load_tokenizer\<close>, \<open>load_model\<close>: the two \<open>from_pretrained\<close> calls;
  \<^item> \<open>generate_decode prompt\<close>: the decoded output of the local model for the prompt
    (lines 126 to 138), or the exception raised on the way.
\<close>

record env =
  str_lower :: "pystr \<Rightarrow> pystr"
  index_search :: "event list \<Rightarrow> pystr \<Rightarrow> int \<Rightarrow> error + int list"
  messages_create :: "event list \<Rightarrow> pystr \<Rightarrow> error + pystr"
  load_tokenizer :: "event list \<Rightarrow> error + unit"
  load_model :: "event list \<Rightarrow> error + unit"
  generate_decode :: "event list \<Rightarrow> pystr \<Rightarrow> error + pystr"

text \<open>Lines 47 to 50 of \<open>__init__\<close>: an absent or empty key gives no client.\<close>

definition make_client :: "pystr option \<Rightarrow> pystr option" where
  "make_client claude_api_key =
     (case claude_api_key of None \<Rightarrow> None | Some key \<Rightarrow> if key = [] then None else Some key)"

subsection \<open>Retrieval\<close>

text \<open>The loop of \<open>retrieve_relevant_info\<close> over the row of labels (lines 105 to 108).\<close>

fun collect_results :: "entry list \<Rightarrow> int list \<Rightarrow> error + entry list" where
  "collect_results kb [] = Inr []"
| "collect_results kb (idx # rest) =
     (if idx \<noteq> - 1 then
        (case getitem kb idx of
           Inl e \<Rightarrow> Inl e
         | Inr item \<Rightarrow>
             (case collect_results kb rest of Inl e \<Rightarrow> Inl e | Inr results \<Rightarrow> Inr (item # results)))
      else collect_results kb rest)"

definition retrieve_relevant_info ::
  "env \<Rightarrow> chatbot \<Rightarrow> pystr \<Rightarrow> int \<Rightarrow> chatbot \<times> (error + entry list)" where
  "retrieve_relevant_info env self query k =
     (let self1 = self\<lparr>calls := calls self @ [Retrieval query k]\<rparr> in
      case index_search env (calls self) query k of
        Inl e \<Rightarrow> (self1, Inl e)
      | Inr labels \<Rightarrow> (self1, collect_results (knowledge_base self) labels))"

subsection \<open>Generation\<close>

text \<open>
  Lines 114 to 124 of \<open>_use_fallback_model\<close>: the local model is loaded when the field is
  still \<open>None\<close>; the tokenizer field is assigned before the model is loaded.
\<close>

definition load_fallback :: "env \<Rightarrow> chatbot \<Rightarrow> chatbot \<times> (error + unit)" where
  "load_fallback env self =
     (if fallback_model self then (self, Inr ())
      else
        (case load_tokenizer env (calls self) of
           Inl e \<Rightarrow> (self, Inl e)
         | Inr u \<Rightarrow>
             (case load_model env (calls self) of
                Inl e \<Rightarrow> (self\<lparr>fallback_tokenizer := True\<rparr>, Inl e)
              | Inr v \<Rightarrow> (self\<lparr>fallback_tokenizer := True, fallback_model := True\<rparr>, Inr ()))))"

text \<open>Lines 140 to 144: the echoed prompt is cut off and the rest truncated.\<close>

definition trim_response :: "pystr \<Rightarrow> pystr \<Rightarrow> pystr" where
  "trim_response prompt response =
     (let response = (if str_in prompt response then strip (drop (length prompt) response)
                      else response)
      in strip (take 1000 response))"

definition use_fallback_model :: "env \<Rightarrow> chatbot \<Rightarrow> pystr \<Rightarrow> chatbot \<times> (error + pystr)" where
  "use_fallback_model env self prompt =
     (case load_fallback env (self\<lparr>calls := calls self @ [FallbackCall prompt]\<rparr>) of
        (self1, Inl e) \<Rightarrow> (self1, Inl e)
      | (self1, Inr u) \<Rightarrow>
          (case generate_decode env (calls self1) prompt of
             Inl e \<Rightarrow> (self1, Inl e)
           | Inr response \<Rightarrow> (self1, Inr (trim_response prompt response))))"

text \<open>Line 159: one bullet per context entry; an entry without \<open>'text'\<close> raises.\<close>

fun context_lines :: "entry list \<Rightarrow> error + pystr list" where
  "context_lines [] = Inr []"
| "context_lines (item # rest) =
     (case item (ascii ''text'') of
        None \<Rightarrow> Inl (KeyError (ascii ''text''))
      | Some t \<Rightarrow>
          (case context_lines rest of
             Inl e \<Rightarrow> Inl e
           | Inr ls \<Rightarrow> Inr ((ascii ''- '' @ t) # ls)))"

definition build_prompt :: "pystr \<Rightarrow> entry list \<Rightarrow> error + pystr" where
  "build_prompt query context =
     (case context_lines context of
        Inl e \<Rightarrow> Inl e
      | Inr ls \<Rightarrow> Inr (prompt_head @ join [10, 10] ls @ prompt_mid @ query @ prompt_tail))"

text \<open>
  \<open>generate_response\<close>. The prompt is built before the \<open>try\<close>. Inside it, the branch that
  calls Claude either returns the text and books the words, or raises and is handled
  by the \<open>except\<close> clause; the \<open>else\<close> branch is inside the \<open>try\<close> as well, so an
  exception of the local model there reaches the same clause, which calls the local
  model once more.
\<close>

definition generate_response ::
  "env \<Rightarrow> chatbot \<Rightarrow> pystr \<Rightarrow> entry list \<Rightarrow> chatbot \<times> (error + pystr)" where
  "generate_response env self query context =
     (case build_prompt query context of
        Inl e \<Rightarrow> (self, Inl e)
      | Inr prompt \<Rightarrow>
          if claude_client self \<noteq> None \<and> used_tokens self < max_tokens_per_month self then
            (case messages_create env (calls self) prompt of
               Inr text \<Rightarrow>
                 (self\<lparr>used_tokens := used_tokens self + (int (length (py_split prompt))
                                                         + int (length (py_split text))),
                        calls := calls self @ [PrimaryCall prompt]\<rparr>, Inr text)
             | Inl e \<Rightarrow>
                 use_fallback_model env (self\<lparr>calls := calls self @ [PrimaryCall prompt]\<rparr>) prompt)
          else
            (case use_fallback_model env self prompt of
               (self1, Inr response) \<Rightarrow> (self1, Inr response)
             | (self1, Inl e) \<Rightarrow> use_fallback_model env self1 prompt))"

subsection \<open>The query router\<close>

definition is_greeting :: "env \<Rightarrow> pystr \<Rightarrow> bool" where
  "is_greeting env query = list_ex (\<lambda>greeting. str_in greeting (str_lower env query)) greetings"

definition process_query :: "env \<Rightarrow> chatbot \<Rightarrow> pystr \<Rightarrow> chatbot \<times> (error + pystr)" where
  "process_query env self query =
     (if is_greeting env query then (self, Inr onboarding_message)
      else
        (case retrieve_relevant_info env self query 5 of
           (self1, Inl e) \<Rightarrow> (self1, Inl e)
         | (self1, Inr relevant_info) \<Rightarrow>
             if relevant_info = [] then (self1, Inr not_found_message)
             else generate_response env self1 query relevant_info))"

text \<open>A series of \<open>generate_response\<close> calls on one object, each with its own answers of
  the libraries; the object lives on when a call raises.\<close>

fun generate_run :: "chatbot \<Rightarrow> (env \<times> pystr \<times> entry list) list \<Rightarrow> chatbot" where
  "generate_run self [] = self"
| "generate_run self ((env, query, context) # rest) =
     generate_run (fst (generate_response env self query context)) rest"

text \<open>The calls made between two states of the object, and the test for a call to Claude.\<close>

definition new_calls :: "chatbot \<Rightarrow> chatbot \<Rightarrow> event list" where
  "new_calls before after = drop (length (calls before)) (calls after)"

fun is_primary_call :: "event \<Rightarrow> bool" where
  "is_primary_call (PrimaryCall prompt) = True"
| "is_primary_call (Retrieval query k) = False"
| "is_primary_call (FallbackCall prompt) = False"

section \<open>Concrete objects for the examples\<close>

text \<open>
  \<open>__init__\<close> (lines 40 to 59), with the loaded knowledge base as an argument: no tokens
  used, no local model loaded, no call made.
\<close>

definition new_chatbot :: "pystr option \<Rightarrow> int \<Rightarrow> entry list \<Rightarrow> chatbot" where
  "new_chatbot claude_api_key max_tokens kb =
     \<lparr>claude_client = make_client claude_api_key, max_tokens_per_month = max_tokens,
      used_tokens = 0, fallback_tokenizer = False, fallback_model = False,
      knowledge_base = kb, calls = []\<rparr>"

text \<open>
  \<open>str.lower\<close> on the Basic Latin and Cyrillic blocks, which is all the examples use:
  \<open>A\<close> to \<open>Z\<close> and U+0410 to U+042F move up by 32, U+0400 to U+040F by 80.
\<close>

definition lower_basic :: "pystr \<Rightarrow> pystr" where
  "lower_basic s =
     map (\<lambda>c. if (65 \<le> c \<and> c \<le> 90) \<or> (1040 \<le> c \<and> c \<le> 1071) then c + 32
              else if 1024 \<le> c \<and> c \<le> 1039 then c + 80 else c) s"

definition demo_entry :: entry where
  "demo_entry = [ascii ''id'' \<mapsto> ascii ''1'', ascii ''text'' \<mapsto> ascii ''tuition fees'']"

text \<open>
  Libraries that answer the same way at every call: the index holds one vector and
  returns its position followed by the filler \<open>-1\<close>, Claude answers \<open>primary\<close>, the local
  model loads and decodes to the prompt followed by \<open>continuation\<close>.
\<close>

definition demo_env :: "error + pystr \<Rightarrow> pystr \<Rightarrow> env" where
  "demo_env primary continuation =
     \<lparr>str_lower = lower_basic,
      index_search = (\<lambda>history query k. Inr [0, - 1, - 1, - 1, - 1]),
      messages_create = (\<lambda>history prompt. primary),
      load_tokenizer = (\<lambda>history. Inr ()),
      load_model = (\<lambda>history. Inr ()),
      generate_decode = (\<lambda>history prompt. Inr (prompt @ continuation))\<rparr>"

text \<open>The prompt \<open>generate_response\<close> builds for the question \<open>fees\<close> over that entry.\<close>

definition demo_prompt :: pystr where
  "demo_prompt =
     prompt_head @ ascii ''- tuition fees'' @ prompt_mid @ ascii ''fees'' @ prompt_tail"

section \<open>Facts about the string operations\<close>

lemma str_in_sublist: "str_in sub s \<longleftrightarrow> sublist sub s"
  by (induction s) (simp_all add: sublist_Cons_right)

lemma str_in_echo: "str_in p (p @ r)"
  by (simp add: str_in_sublist)




lemma trim_response_echo: "trim_response p (p @ c) = strip (take 1000 (strip c))"
  by (simp add: trim_response_def str_in_echo)

section \<open>What the generation methods leave unchanged\<close>

lemma load_fallback_frame:
  "calls (fst (load_fallback env s)) = calls s \<and>
   used_tokens (fst (load_fallback env s)) = used_tokens s \<and>
   claude_client (fst (load_fallback env s)) = claude_client s \<and>
   max_tokens_per_month (fst (load_fallback env s)) = max_tokens_per_month s"
  by (simp add: load_fallback_def split: sum.splits)

lemma use_fallback_model_frame:
  "calls (fst (use_fallback_model env s p)) = calls s @ [FallbackCall p] \<and>
   used_tokens (fst (use_fallback_model env s p)) = used_tokens s \<and>
   claude_client (fst (use_fallback_model env s p)) = claude_client s \<and>
   max_tokens_per_month (fst (use_fallback_model env s p)) = max_tokens_per_month s"
proof -
  obtain s1 r where L: "load_fallback env (s\<lparr>calls := calls s @ [FallbackCall p]\<rparr>) = (s1, r)"
    by (cases "load_fallback env (s\<lparr>calls := calls s @ [FallbackCall p]\<rparr>)")
  from load_fallback_frame [of env "s\<lparr>calls := calls s @ [FallbackCall p]\<rparr>"] L
  have "calls s1 = calls s @ [FallbackCall p]" "used_tokens s1 = used_tokens s"
    "claude_client s1 = claude_client s" "max_tokens_per_month s1 = max_tokens_per_month s"
    by simp_all
  then show ?thesis
    by (simp add: use_fallback_model_def L split: sum.splits)
qed

lemma generate_response_local_only:
  assumes "claude_client self = None \<or> max_tokens_per_month self \<le> used_tokens self"
    and "build_prompt query context = Inr prompt"
  shows "generate_response env self query context =
           (case use_fallback_model env self prompt of
              (self1, Inr response) \<Rightarrow> (self1, Inr response)
            | (self1, Inl e) \<Rightarrow> use_fallback_model env self1 prompt)"
  using assms by (auto simp add: generate_response_def)

lemma generate_response_used_tokens:
  "used_tokens (fst (generate_response env self query context)) =
     used_tokens self +
       (case build_prompt query context of
          Inl e \<Rightarrow> 0
        | Inr prompt \<Rightarrow>
            if claude_client self \<noteq> None \<and> used_tokens self < max_tokens_per_month self then
              (case messages_create env (calls self) prompt of
                 Inr text \<Rightarrow> int (length (py_split prompt)) + int (length (py_split text))
               | Inl e \<Rightarrow> 0)
            else 0)"
proof (cases "build_prompt query context")
  case (Inl e)
  then show ?thesis by (simp add: generate_response_def)
next
  case (Inr prompt)
  show ?thesis
  proof (cases "claude_client self \<noteq> None \<and> used_tokens self < max_tokens_per_month self")
    case True
    then show ?thesis
      using Inr use_fallback_model_frame [of env "self\<lparr>calls := calls self @ [PrimaryCall prompt]\<rparr>" prompt]
      by (auto simp add: generate_response_def split: sum.splits)
  next
    case False
    obtain s1 r where F: "use_fallback_model env self prompt = (s1, r)"
      by (cases "use_fallback_model env self prompt")
    from use_fallback_model_frame [of env self prompt] F
    have s1: "used_tokens s1 = used_tokens self" by simp
    from use_fallback_model_frame [of env s1 prompt]
    have "used_tokens (fst (use_fallback_model env s1 prompt)) = used_tokens s1" by simp
    with s1 False Inr F show ?thesis
      by (cases r) (auto simp add: generate_response_def)
  qed
qed

lemma generate_response_monotone:
  "used_tokens self \<le> used_tokens (fst (generate_response env self query context))"
  by (simp add: generate_response_used_tokens split: sum.splits)

lemma generate_run_monotone:
  "used_tokens self \<le> used_tokens (generate_run self runs)"
proof (induction runs arbitrary: self)
  case Nil
  show ?case by simp
next
  case (Cons r runs)
  obtain env query ctx where r: "r = (env, query, ctx)"
    by (cases r)
  have "used_tokens self \<le> used_tokens (fst (generate_response env self query ctx))"
    by (rule generate_response_monotone)
  also have "\<dots> \<le> used_tokens (generate_run (fst (generate_response env self query ctx)) runs)"
    by (rule Cons.IH)
  finally show ?case by (simp add: r)
qed

section \<open>Facts used by the examples\<close>

lemma str_in_self: "str_in p p"
  using str_in_echo [of p "[]"] by simp

lemma strip_demo: "strip (take 1000 (strip (ascii '' ok''))) = ascii ''ok''"
  by (simp add: strip_def isspace_def ascii_def)





section \<open>The recommendation scorer: claims C2, C9 and C10\<close>

lemma scores_profile:
  "scores (profile t m p k e) =
     ((if t then 2 else 0) + (if p then 2 else 0) + (if k then 1 else 0),
      (if t then 1 else 0) + (if m then 2 else 0) + (if p then 1 else 0) + (if k then 1 else 0)
        + (if e then 2 else 0))"
  by (simp add: scores_def profile_def get_flag_def ascii_def)

lemma recommendations_distinct:
  "recommendation_ai \<noteq> recommendation_ai_product"
  "recommendation_ai \<noteq> recommendation_both"
  "recommendation_ai_product \<noteq> recommendation_both"
  by (simp_all add: recommendation_ai_def recommendation_ai_product_def recommendation_both_def)

lemma recommend_program_by_scores:
  "recommend_program bg =
     (if snd (scores bg) < fst (scores bg) then recommendation_ai
      else if fst (scores bg) < snd (scores bg) then recommendation_ai_product
      else recommendation_both)"
  by (simp add: recommend_program_def split: prod.split)

text \<open>
  Claim C2. For a profile of five booleans, \<open>recommend_program\<close> counts +2/+1 for
  technical skills, 0/+2 for management interest, +2/+1 for programming experience, +1/+1
  for ML knowledge and 0/+2 for product experience (programme AI / programme AI Product),
  and returns the AI text exactly when the AI score is the larger, the AI Product text
  exactly when the AI Product score is the larger, and the text for both exactly when the
  scores are equal. The profile (true, false, true, false, false) scores 4 and 2 and gets
  the AI text; the all-false profile scores 0 and 0 and gets the text for both.
\<close>

theorem recommend_program_weight_table:
  "scores (profile t m p k e) =
     ((if t then 2 else 0) + (if p then 2 else 0) + (if k then 1 else 0),
      (if t then 1 else 0) + (if m then 2 else 0) + (if p then 1 else 0) + (if k then 1 else 0)
        + (if e then 2 else 0))
   \<and> (recommend_program (profile t m p k e) = recommendation_ai
        \<longleftrightarrow> snd (scores (profile t m p k e)) < fst (scores (profile t m p k e)))
   \<and> (recommend_program (profile t m p k e) = recommendation_ai_product
        \<longleftrightarrow> fst (scores (profile t m p k e)) < snd (scores (profile t m p k e)))
   \<and> (recommend_program (profile t m p k e) = recommendation_both
        \<longleftrightarrow> fst (scores (profile t m p k e)) = snd (scores (profile t m p k e)))
   \<and> scores (profile True False True False False) = (4, 2)
   \<and> recommend_program (profile True False True False False) = recommendation_ai
   \<and> scores (profile False False False False False) = (0, 0)
   \<and> recommend_program (profile False False False False False) = recommendation_both"
proof -
  have iffs: "(recommend_program bg = recommendation_ai \<longleftrightarrow> snd (scores bg) < fst (scores bg))
      \<and> (recommend_program bg = recommendation_ai_product \<longleftrightarrow> fst (scores bg) < snd (scores bg))
      \<and> (recommend_program bg = recommendation_both \<longleftrightarrow> fst (scores bg) = snd (scores bg))" for bg
    using recommendations_distinct recommendations_distinct [symmetric]
    by (auto simp add: recommend_program_by_scores)
  have ex1: "recommend_program (profile True False True False False) = recommendation_ai"
    by (simp add: recommend_program_by_scores scores_profile)
  have ex2: "recommend_program (profile False False False False False) = recommendation_both"
    by (simp add: recommend_program_by_scores scores_profile)
  show ?thesis
    using iffs [of "profile t m p k e"] ex1 ex2 by (simp add: scores_profile)
qed

lemma get_flag_absent: "get_flag (bg(key := None)) = get_flag (bg(key \<mapsto> False))"
  by (rule ext) (simp add: get_flag_def)

lemma scores_get_flag: "get_flag a = get_flag b \<Longrightarrow> scores a = scores b"
  by (simp add: scores_def)

lemma recommend_program_get_flag:
  "get_flag a = get_flag b \<Longrightarrow> recommend_program a = recommend_program b"
  by (simp add: recommend_program_def scores_get_flag [of a b])

lemma disciplines_get_flag:
  "get_flag a = get_flag b \<Longrightarrow>
   get_disciplines_recommendation program a = get_disciplines_recommendation program b"
  by (simp add: get_disciplines_recommendation_def)

text \<open>
  Claim C9. Both \<open>recommend_program\<close> and \<open>get_disciplines_recommendation\<close> read the
  profile only through \<open>get(key, False)\<close>, so neither has an error case, and a profile
  that lacks a key gives the same result as the profile with \<open>False\<close> under that key.
  The profile without any key scores 0 and 0 and gets the text for both programmes.
\<close>

theorem absent_factor_counts_as_false:
  "scores (bg(key := None)) = scores (bg(key \<mapsto> False))
   \<and> recommend_program (bg(key := None)) = recommend_program (bg(key \<mapsto> False))
   \<and> get_disciplines_recommendation program (bg(key := None)) =
       get_disciplines_recommendation program (bg(key \<mapsto> False))
   \<and> scores Map.empty = (0, 0)
   \<and> recommend_program Map.empty = recommendation_both"
proof -
  note absent = get_flag_absent [of bg key]
  have empty: "scores Map.empty = (0, 0)"
    by (simp add: scores_def get_flag_def)
  then have tie: "recommend_program Map.empty = recommendation_both"
    by (simp add: recommend_program_by_scores)
  from scores_get_flag [OF absent] recommend_program_get_flag [OF absent]
    disciplines_get_flag [OF absent, of program] empty tie
  show ?thesis
    by (intro conjI)
qed

text \<open>
  Claim C10. For every \<open>program\<close> other than the string \<open>'ai'\<close>,
  \<open>get_disciplines_recommendation\<close> returns what it returns for \<open>'ai_product'\<close>: the
  block that starts with the header of the programme AI Product. No value is rejected.
\<close>

theorem unknown_program_gets_product_block:
  "program \<noteq> ascii ''ai'' \<Longrightarrow>
   get_disciplines_recommendation program background =
     get_disciplines_recommendation (ascii ''ai_product'') background
   \<and> prefix disc_product_header (get_disciplines_recommendation program background)"
  by (simp add: get_disciplines_recommendation_def ascii_def)

theorem unknown_program_gets_product_block_witness:
  "ascii ''data_science'' \<noteq> ascii ''ai''
   \<and> get_disciplines_recommendation (ascii ''data_science'') Map.empty =
       get_disciplines_recommendation (ascii ''ai_product'') Map.empty
   \<and> prefix disc_product_header (get_disciplines_recommendation (ascii ''data_science'') Map.empty)"
proof -
  have h: "ascii ''data_science'' \<noteq> ascii ''ai''"
    by (simp add: ascii_def)
  note T = unknown_program_gets_product_block [OF h, of Map.empty]
  from h T [THEN conjunct1] T [THEN conjunct2] show ?thesis
    by (intro conjI)
qed

section \<open>Generation: claims C3 and C4\<close>

text \<open>
  Claim C4. A call of \<open>generate_response\<close> changes \<open>used_tokens\<close> only when it calls
  Claude and the call answers; it then adds the number of whitespace-separated words of
  the prompt and of the answer. In every other case (the prompt cannot be built, Claude
  may not be used, Claude raises and the local model takes over) the counter keeps its value.
  So the counter never decreases, over one call and over any series of calls.
\<close>

theorem used_tokens_grow_by_word_counts:
  "used_tokens (fst (generate_response env self query context)) =
     used_tokens self +
       (case build_prompt query context of
          Inl e \<Rightarrow> 0
        | Inr prompt \<Rightarrow>
            if claude_client self \<noteq> None \<and> used_tokens self < max_tokens_per_month self then
              (case messages_create env (calls self) prompt of
                 Inr text \<Rightarrow> int (length (py_split prompt)) + int (length (py_split text))
               | Inl e \<Rightarrow> 0)
            else 0)
   \<and> used_tokens self \<le> used_tokens (fst (generate_response env self query context))
   \<and> used_tokens self \<le> used_tokens (generate_run self runs)"
  by (intro conjI generate_response_used_tokens generate_response_monotone generate_run_monotone)

lemma new_calls_append: "calls after = calls before @ added \<Longrightarrow> new_calls before after = added"
  by (simp add: new_calls_def)

lemma local_only_calls:
  assumes "claude_client self = None \<or> max_tokens_per_month self \<le> used_tokens self"
    and "build_prompt query context = Inr prompt"
  shows "calls (fst (generate_response env self query context)) = calls self @ [FallbackCall prompt]
       \<or> calls (fst (generate_response env self query context)) =
           calls self @ [FallbackCall prompt, FallbackCall prompt]"
proof -
  obtain s1 r where F: "use_fallback_model env self prompt = (s1, r)"
    by (cases "use_fallback_model env self prompt")
  from use_fallback_model_frame [of env self prompt] F
  have s1: "calls s1 = calls self @ [FallbackCall prompt]"
    by simp
  from use_fallback_model_frame [of env s1 prompt] s1
  have s2: "calls (fst (use_fallback_model env s1 prompt)) =
      calls self @ [FallbackCall prompt, FallbackCall prompt]"
    by simp
  show ?thesis
    using generate_response_local_only [OF assms, of env] F s1 s2
    by (cases r) simp_all
qed

text \<open>
  Claim C3. When no client is configured, or \<open>used_tokens\<close> has reached
  \<open>max_tokens_per_month\<close>, a call of \<open>generate_response\<close> makes no call to Claude. If
  the prompt can be built, the calls it makes are one call of the local model, or two when
  the first one raises, and its outcome is the local model's.
\<close>

theorem no_primary_call_without_quota:
  assumes "claude_client self = None \<or> max_tokens_per_month self \<le> used_tokens self"
  shows "filter is_primary_call (new_calls self (fst (generate_response env self query context))) = []
     \<and> (build_prompt query context = Inr prompt \<longrightarrow>
          (new_calls self (fst (generate_response env self query context)) = [FallbackCall prompt]
           \<or> new_calls self (fst (generate_response env self query context)) =
               [FallbackCall prompt, FallbackCall prompt])
          \<and> generate_response env self query context =
              (case use_fallback_model env self prompt of
                 (self1, Inr response) \<Rightarrow> (self1, Inr response)
               | (self1, Inl e) \<Rightarrow> use_fallback_model env self1 prompt))"
proof (cases "build_prompt query context")
  case (Inl e)
  then show ?thesis
    by (simp add: generate_response_def new_calls_def)
next
  case (Inr p)
  from local_only_calls [OF assms Inr, of env]
  have N: "new_calls self (fst (generate_response env self query context)) = [FallbackCall p]
      \<or> new_calls self (fst (generate_response env self query context)) =
          [FallbackCall p, FallbackCall p]"
    by (auto simp add: new_calls_def)
  then have none: "filter is_primary_call
      (new_calls self (fst (generate_response env self query context))) = []"
    by auto
  show ?thesis
  proof (intro conjI impI)
    show "filter is_primary_call
        (new_calls self (fst (generate_response env self query context))) = []"
      by (rule none)
  next
    assume "build_prompt query context = Inr prompt"
    with Inr have "prompt = p" by simp
    with N show "new_calls self (fst (generate_response env self query context)) = [FallbackCall prompt]
        \<or> new_calls self (fst (generate_response env self query context)) =
            [FallbackCall prompt, FallbackCall prompt]"
      by simp
  next
    assume "build_prompt query context = Inr prompt"
    then show "generate_response env self query context =
        (case use_fallback_model env self prompt of
           (self1, Inr response) \<Rightarrow> (self1, Inr response)
         | (self1, Inl e) \<Rightarrow> use_fallback_model env self1 prompt)"
      by (rule generate_response_local_only [OF assms])
  qed
qed

lemma build_prompt_demo: "build_prompt (ascii ''fees'') [demo_entry] = Inr demo_prompt"
  by (simp add: build_prompt_def demo_entry_def demo_prompt_def ascii_def)

theorem no_primary_call_without_quota_witness:
  "claude_client (new_chatbot None 100000 [demo_entry]) = None
   \<and> build_prompt (ascii ''fees'') [demo_entry] = Inr demo_prompt
   \<and> filter is_primary_call
       (new_calls (new_chatbot None 100000 [demo_entry])
          (fst (generate_response (demo_env (Inr (ascii ''ok'')) (ascii '' ok''))
                  (new_chatbot None 100000 [demo_entry]) (ascii ''fees'') [demo_entry]))) = []
   \<and> (new_calls (new_chatbot None 100000 [demo_entry])
          (fst (generate_response (demo_env (Inr (ascii ''ok'')) (ascii '' ok''))
                  (new_chatbot None 100000 [demo_entry]) (ascii ''fees'') [demo_entry]))
        = [FallbackCall demo_prompt]
      \<or> new_calls (new_chatbot None 100000 [demo_entry])
          (fst (generate_response (demo_env (Inr (ascii ''ok'')) (ascii '' ok''))
                  (new_chatbot None 100000 [demo_entry]) (ascii ''fees'') [demo_entry]))
        = [FallbackCall demo_prompt, FallbackCall demo_prompt])"
proof -
  have h: "claude_client (new_chatbot None 100000 [demo_entry]) = None
      \<or> max_tokens_per_month (new_chatbot None 100000 [demo_entry])
          \<le> used_tokens (new_chatbot None 100000 [demo_entry])"
    by (simp add: new_chatbot_def make_client_def)
  have c: "claude_client (new_chatbot None 100000 [demo_entry]) = None"
    by (simp add: new_chatbot_def make_client_def)
  note T = no_primary_call_without_quota [OF h, of "demo_env (Inr (ascii ''ok'')) (ascii '' ok'')"
      "ascii ''fees''" "[demo_entry]" demo_prompt]
  from c build_prompt_demo T [THEN conjunct1]
    T [THEN conjunct2, THEN mp, OF build_prompt_demo, THEN conjunct1]
  show ?thesis
    by (intro conjI)
qed

section \<open>The concrete objects at work\<close>

lemmas greeting_defs =
  greeting_privet_def greeting_zdravstvuy_def greeting_dobry_den_def greeting_dobry_vecher_def
  greeting_zdravstvuyte_def greeting_start_def greeting_slash_start_def

lemma not_greeting_fees: "\<not> is_greeting (demo_env primary continuation) (ascii ''fees'')"
  by (simp add: is_greeting_def greetings_def greeting_defs demo_env_def lower_basic_def ascii_def)




section \<open>The query router: claim C5\<close>

lemma retrieve_frame:
  "calls (fst (retrieve_relevant_info env s q k)) = calls s @ [Retrieval q k] \<and>
   claude_client (fst (retrieve_relevant_info env s q k)) = claude_client s"
  by (simp add: retrieve_relevant_info_def Let_def split: sum.splits)

lemma generate_response_extends:
  "\<exists>added. calls (fst (generate_response env s q c)) = calls s @ added"
proof (cases "build_prompt q c")
  case (Inl e)
  then show ?thesis
    by (simp add: generate_response_def)
next
  case (Inr p)
  note P = Inr
  show ?thesis
  proof (cases "claude_client s \<noteq> None \<and> used_tokens s < max_tokens_per_month s")
    case True
    note allowed = True
    show ?thesis
    proof (cases "messages_create env (calls s) p")
      case (Inl e)
      with allowed P have "generate_response env s q c =
          use_fallback_model env (s\<lparr>calls := calls s @ [PrimaryCall p]\<rparr>) p"
        by (simp add: generate_response_def)
      with use_fallback_model_frame [of env "s\<lparr>calls := calls s @ [PrimaryCall p]\<rparr>" p]
      show ?thesis
        by simp
    next
      case (Inr t)
      with allowed P show ?thesis
        by (simp add: generate_response_def)
    qed
  next
    case False
    then have "claude_client s = None \<or> max_tokens_per_month s \<le> used_tokens s"
      by auto
    from local_only_calls [OF this P, of env] show ?thesis
      by blast
  qed
qed

lemma process_query_calls:
  assumes "\<not> is_greeting env q"
  shows "\<exists>added. calls (fst (process_query env s q)) = calls s @ Retrieval q 5 # added"
proof -
  obtain s1 r where R: "retrieve_relevant_info env s q 5 = (s1, r)"
    by (cases "retrieve_relevant_info env s q 5")
  with retrieve_frame [of env s q 5] have c1: "calls s1 = calls s @ [Retrieval q 5]"
    by simp
  show ?thesis
  proof (cases r)
    case (Inl e)
    with assms R c1 show ?thesis
      by (simp add: process_query_def)
  next
    case (Inr info)
    show ?thesis
    proof (cases "info = []")
      case True
      with assms R c1 Inr show ?thesis
        by (simp add: process_query_def)
    next
      case False
      with assms R Inr have "process_query env s q = generate_response env s1 q info"
        by (simp add: process_query_def)
      moreover obtain added where
        "calls (fst (generate_response env s1 q info)) = calls s1 @ added"
        using generate_response_extends by blast
      ultimately show ?thesis
        using c1 by simp
    qed
  qed
qed

text \<open>
  Claim C5, as the code has it. \<open>process_query\<close> lowercases the query and tests whether one
  of the seven greeting and start tokens occurs in it as a substring (\<open>greeting in
  query.lower()\<close>), not whether the query is one of the tokens. Exactly when a token occurs,
  it returns the onboarding message and leaves the object as it was, so neither retrieval
  nor generation is called; otherwise its first call is the retrieval with \<open>k = 5\<close>. The
  query \<open>privet\<close>, which \<open>lower\<close> leaves unchanged, gets the onboarding message.
\<close>

theorem greeting_substring_short_circuit:
  "(process_query env self query = (self, Inr onboarding_message) \<longleftrightarrow> is_greeting env query)
   \<and> (is_greeting env query \<longleftrightarrow>
        (\<exists>greeting\<in>set greetings. sublist greeting (str_lower env query)))
   \<and> (\<not> is_greeting env query \<longrightarrow>
        (\<exists>added. calls (fst (process_query env self query)) =
                    calls self @ Retrieval query 5 # added))
   \<and> (str_lower env greeting_privet = greeting_privet \<longrightarrow>
        process_query env self greeting_privet = (self, Inr onboarding_message))"
proof (intro conjI)
  show "process_query env self query = (self, Inr onboarding_message) \<longleftrightarrow> is_greeting env query"
  proof
    assume eq: "process_query env self query = (self, Inr onboarding_message)"
    show "is_greeting env query"
    proof (rule ccontr)
      assume "\<not> is_greeting env query"
      from process_query_calls [OF this, of self] obtain added where
        "calls (fst (process_query env self query)) = calls self @ Retrieval query 5 # added"
        by blast
      with eq show False
        by simp
    qed
  next
    assume "is_greeting env query"
    then show "process_query env self query = (self, Inr onboarding_message)"
      by (simp add: process_query_def)
  qed
next
  show "is_greeting env query \<longleftrightarrow>
      (\<exists>greeting\<in>set greetings. sublist greeting (str_lower env query))"
    by (simp add: is_greeting_def list_ex_iff str_in_sublist)
next
  show "\<not> is_greeting env query \<longrightarrow>
      (\<exists>added. calls (fst (process_query env self query)) =
                  calls self @ Retrieval query 5 # added)"
    by (rule impI) (rule process_query_calls)
next
  show "str_lower env greeting_privet = greeting_privet \<longrightarrow>
      process_query env self greeting_privet = (self, Inr onboarding_message)"
  proof
    assume L: "str_lower env greeting_privet = greeting_privet"
    have "is_greeting env greeting_privet"
      by (simp add: is_greeting_def greetings_def L str_in_self)
    then show "process_query env self greeting_privet = (self, Inr onboarding_message)"
      by (simp add: process_query_def)
  qed
qed

theorem greeting_substring_short_circuit_witness:
  "process_query (demo_env (Inl (Raised 0)) []) (new_chatbot None 100000 [demo_entry])
       greeting_privet =
     (new_chatbot None 100000 [demo_entry], Inr onboarding_message)
   \<and> \<not> is_greeting (demo_env (Inl (Raised 0)) []) (ascii ''fees'')
   \<and> (\<exists>added. calls (fst (process_query (demo_env (Inl (Raised 0)) [])
                               (new_chatbot None 100000 [demo_entry]) (ascii ''fees''))) =
          calls (new_chatbot None 100000 [demo_entry]) @ Retrieval (ascii ''fees'') 5 # added)"
proof -
  have L: "str_lower (demo_env (Inl (Raised 0)) []) greeting_privet = greeting_privet"
    by (simp add: demo_env_def lower_basic_def greeting_privet_def)
  note N = not_greeting_fees [of "Inl (Raised 0)" "[]"]
  note T1 = greeting_substring_short_circuit [of "demo_env (Inl (Raised 0)) []"
      "new_chatbot None 100000 [demo_entry]" greeting_privet]
  note T2 = greeting_substring_short_circuit [of "demo_env (Inl (Raised 0)) []"
      "new_chatbot None 100000 [demo_entry]" "ascii ''fees''"]
  from T1 [THEN conjunct2, THEN conjunct2, THEN conjunct2, THEN mp, OF L] N
    T2 [THEN conjunct2, THEN conjunct2, THEN conjunct1, THEN mp, OF N]
  show ?thesis
    by (intro conjI)
qed

text \<open>
  The query \<open>restart\<close> is none of the tokens, yet it contains \<open>start\<close>: it gets the
  onboarding message, and no retrieval is made.
\<close>

theorem greeting_membership_counterexample:
  "str_lower (demo_env (Inl (Raised 0)) []) (ascii ''restart'') \<notin> set greetings
   \<and> process_query (demo_env (Inl (Raised 0)) []) (new_chatbot None 100000 [demo_entry])
         (ascii ''restart'') =
       (new_chatbot None 100000 [demo_entry], Inr onboarding_message)"
proof -
  have "str_lower (demo_env (Inl (Raised 0)) []) (ascii ''restart'') \<notin> set greetings"
    by (simp add: demo_env_def lower_basic_def ascii_def greetings_def greeting_defs)
  moreover have "is_greeting (demo_env (Inl (Raised 0)) []) (ascii ''restart'')"
    by (simp add: is_greeting_def greetings_def greeting_defs demo_env_def lower_basic_def ascii_def)
  then have "process_query (demo_env (Inl (Raised 0)) []) (new_chatbot None 100000 [demo_entry])
         (ascii ''restart'') =
       (new_chatbot None 100000 [demo_entry], Inr onboarding_message)"
    by (simp add: process_query_def)
  ultimately show ?thesis
    by (intro conjI)
qed

section \<open>Failure of the primary model: claim C6\<close>

lemma use_fallback_model_result:
  assumes "snd (load_fallback env (s\<lparr>calls := calls s @ [FallbackCall p]\<rparr>)) = Inr u"
    and "generate_decode env (calls s @ [FallbackCall p]) p = Inr response"
  shows "snd (use_fallback_model env s p) = Inr (trim_response p response)"
proof -
  obtain s1 r where L: "load_fallback env (s\<lparr>calls := calls s @ [FallbackCall p]\<rparr>) = (s1, r)"
    by (cases "load_fallback env (s\<lparr>calls := calls s @ [FallbackCall p]\<rparr>)")
  with load_fallback_frame [of env "s\<lparr>calls := calls s @ [FallbackCall p]\<rparr>"]
  have "calls s1 = calls s @ [FallbackCall p]"
    by simp
  with assms L show ?thesis
    by (simp add: use_fallback_model_def)
qed

text \<open>
  Claim C6. When a client is configured, the budget is not used up and the call to Claude
  raises, whatever the exception,
  \<open>generate_response\<close> does what \<open>_use_fallback_model\<close> does on the same prompt: the
  calls are the one to Claude and one to the local model, no token is booked, and the
  outcome is the local model's; when the local model loads and decodes, the result is its
  trimmed output. The exception of Claude appears nowhere in the outcome.
\<close>

theorem primary_exception_falls_back:
  assumes "build_prompt query context = Inr prompt"
    and "claude_client self \<noteq> None"
    and "used_tokens self < max_tokens_per_month self"
    and "messages_create env (calls self) prompt = Inl e"
  shows "generate_response env self query context =
           use_fallback_model env (self\<lparr>calls := calls self @ [PrimaryCall prompt]\<rparr>) prompt
     \<and> new_calls self (fst (generate_response env self query context)) =
           [PrimaryCall prompt, FallbackCall prompt]
     \<and> used_tokens (fst (generate_response env self query context)) = used_tokens self
     \<and> (snd (load_fallback env
               (self\<lparr>calls := calls self @ [PrimaryCall prompt, FallbackCall prompt]\<rparr>)) = Inr ()
          \<longrightarrow> generate_decode env (calls self @ [PrimaryCall prompt, FallbackCall prompt]) prompt
                = Inr response
          \<longrightarrow> snd (generate_response env self query context) = Inr (trim_response prompt response))"
proof -
  let ?s = "self\<lparr>calls := calls self @ [PrimaryCall prompt]\<rparr>"
  have G: "generate_response env self query context = use_fallback_model env ?s prompt"
    using assms by (simp add: generate_response_def)
  note F = use_fallback_model_frame [of env ?s prompt]
  have N: "new_calls self (fst (generate_response env self query context)) =
      [PrimaryCall prompt, FallbackCall prompt]"
    using F by (simp add: G new_calls_def)
  have U: "used_tokens (fst (generate_response env self query context)) = used_tokens self"
    using F by (simp add: G)
  have R: "snd (load_fallback env
               (self\<lparr>calls := calls self @ [PrimaryCall prompt, FallbackCall prompt]\<rparr>)) = Inr ()
          \<longrightarrow> generate_decode env (calls self @ [PrimaryCall prompt, FallbackCall prompt]) prompt
                = Inr response
          \<longrightarrow> snd (generate_response env self query context) = Inr (trim_response prompt response)"
  proof (intro impI)
    assume a: "snd (load_fallback env
        (self\<lparr>calls := calls self @ [PrimaryCall prompt, FallbackCall prompt]\<rparr>)) = Inr ()"
      and b: "generate_decode env (calls self @ [PrimaryCall prompt, FallbackCall prompt]) prompt
        = Inr response"
    have "snd (use_fallback_model env ?s prompt) = Inr (trim_response prompt response)"
      using a b by (intro use_fallback_model_result [where u = "()"]) simp_all
    then show "snd (generate_response env self query context) = Inr (trim_response prompt response)"
      by (simp add: G)
  qed
  from G N U R show ?thesis
    by (intro conjI)
qed

theorem primary_exception_falls_back_witness:
  "snd (generate_response (demo_env (Inl (Raised 503)) (ascii '' ok''))
          (new_chatbot (Some (ascii ''key'')) 100000 [demo_entry]) (ascii ''fees'') [demo_entry]) =
     Inr (ascii ''ok'')
   \<and> new_calls (new_chatbot (Some (ascii ''key'')) 100000 [demo_entry])
        (fst (generate_response (demo_env (Inl (Raised 503)) (ascii '' ok''))
                (new_chatbot (Some (ascii ''key'')) 100000 [demo_entry]) (ascii ''fees'')
                [demo_entry])) =
     [PrimaryCall demo_prompt, FallbackCall demo_prompt]"
proof -
  let ?E = "demo_env (Inl (Raised 503)) (ascii '' ok'')"
  let ?B = "new_chatbot (Some (ascii ''key'')) 100000 [demo_entry]"
  have c: "claude_client ?B \<noteq> None"
    by (simp add: new_chatbot_def make_client_def ascii_def)
  have u: "used_tokens ?B < max_tokens_per_month ?B"
    by (simp add: new_chatbot_def)
  have m: "messages_create ?E (calls ?B) demo_prompt = Inl (Raised 503)"
    by (simp add: demo_env_def)
  note T = primary_exception_falls_back [OF build_prompt_demo c u m,
      of "demo_prompt @ ascii '' ok''"]
  have l: "snd (load_fallback ?E
      (?B\<lparr>calls := calls ?B @ [PrimaryCall demo_prompt, FallbackCall demo_prompt]\<rparr>)) = Inr ()"
    by (simp add: load_fallback_def demo_env_def new_chatbot_def)
  have d: "generate_decode ?E (calls ?B @ [PrimaryCall demo_prompt, FallbackCall demo_prompt])
      demo_prompt = Inr (demo_prompt @ ascii '' ok'')"
    by (simp add: demo_env_def)
  from T [THEN conjunct2, THEN conjunct2, THEN conjunct2, THEN mp, OF l, THEN mp, OF d]
  have "snd (generate_response ?E ?B (ascii ''fees'') [demo_entry]) = Inr (ascii ''ok'')"
    by (simp only: trim_response_echo strip_demo)
  with T [THEN conjunct2, THEN conjunct1] show ?thesis
    by (intro conjI)
qed

section \<open>The length of an answer: claim C8\<close>










end
